theory Spec2Isabelle
  imports Complex_Main
begin

section \<open>The anomaly detection service of app.py\<close>

text \<open>
  The service of \<^verbatim>\<open>app.py\<close> keeps one serialised estimator per model identifier in the
  directory \<^verbatim>\<open>models\<close> and answers three kinds of request: train, detect and status.
  Python floats are modelled as reals, the model directory as a finite map from paths to
  stored blobs, and every \<^verbatim>\<open>raise\<close> as the left summand of a result.
  The estimator (scikit-learn's IsolationForest), the serialiser (joblib) and the array
  constructor of numpy are libraries that the file only calls: they are parameters of the
  model, collected in the record \<open>libs\<close> below.
\<close>

subsection \<open>Requests and responses\<close>

type_synonym py_exception = string
  \<comment> \<open>an exception is represented by the text that \<^verbatim>\<open>f"{e}"\<close> prints\<close>

record DataInput =
  data :: "real list list"
  model_id :: string
  contamination :: real

type_synonym TrainingData = DataInput
  \<comment> \<open>the class TrainingData declares the same three fields as DataInput\<close>

datatype AnomalyDetectionOutput = AnomalyDetectionOutput string "int list" real real
  \<comment> \<open>model_id, anomalies, empirical_verifiability_score, processing_time_ms\<close>

datatype ModelStatus = ModelStatus string bool "nat option"
  \<comment> \<open>model_id, is_trained, data_shape\<close>

datatype TrainingResult = TrainingResult string string string
  \<comment> \<open>model_id, status, message\<close>

datatype failure =
    HTTPException nat string  \<comment> \<open>status code and detail, raised by the handler\<close>
  | Uncaught py_exception     \<comment> \<open>an exception that leaves the handler (answered with 500)\<close>

subsection \<open>The verifiability score (lines 100 to 106)\<close>

definition np_min :: "real list \<Rightarrow> real" where
  "np_min xs = fold min (tl xs) (hd xs)"

definition np_max :: "real list \<Rightarrow> real" where
  "np_max xs = fold max (tl xs) (hd xs)"

definition np_mean :: "real list \<Rightarrow> real" where
  "np_mean xs = sum_list xs / real (length xs)"

text \<open>
  \<^verbatim>\<open>anomaly_scores.min()\<close> raises ValueError on an array of size zero; the handler reads
  the minimum first, so that is the exception an empty score array produces.
\<close>

definition empirical_verifiability_score :: "real list \<Rightarrow> py_exception + real" where
  "empirical_verifiability_score anomaly_scores =
     (if anomaly_scores = []
      then Inl ''zero-size array to reduction operation minimum which has no identity''
      else
        let min_score = np_min anomaly_scores;
            max_score = np_max anomaly_scores
        in if max_score = min_score then Inr 1
           else
             let normalized_scores =
                   map (\<lambda>s. (s - min_score) / (max_score - min_score)) anomaly_scores
             in Inr (np_mean normalized_scores))"

subsection \<open>The libraries the service calls\<close>

text \<open>
  \<^verbatim>\<open>np.array\<close> applied to a list of lists of floats yields a two-dimensional array exactly
  when all rows have one length (rows of length zero included). On rows of unequal length
  numpy before 1.24 builds a one-dimensional array of objects, and numpy from 1.24 on raises
  ValueError; the model carries both behaviours, selected by a \<open>ragged_policy\<close>.
\<close>

datatype ragged_policy = ObjectArray | RaisesValueError

record ndarray =
  ndim :: nat
  rows :: "real list list"

definition rectangular :: "real list list \<Rightarrow> bool" where
  "rectangular xs = list_all (\<lambda>row. length row = length (hd xs)) xs"

definition np_array :: "ragged_policy \<Rightarrow> real list list \<Rightarrow> py_exception + ndarray" where
  "np_array policy xs =
     (if xs = [] then Inr \<lparr>ndim = 1, rows = xs\<rparr>
      else if rectangular xs then Inr \<lparr>ndim = 2, rows = xs\<rparr>
      else case policy of
             ObjectArray \<Rightarrow> Inr \<lparr>ndim = 1, rows = xs\<rparr>
           | RaisesValueError \<Rightarrow>
               Inl ''setting an array element with a sequence. The requested array has an inhomogeneous shape after 1 dimensions.'')"

text \<open>
  The estimator and the serialiser are parameters. \<open>fit\<close> receives the arguments that
  \<^verbatim>\<open>IsolationForest(contamination=contamination, random_state=42).fit(data)\<close> passes:
  the random state, the contamination and the array. Each call may raise.
\<close>

record ('m, 'b) libs =
  ragged :: ragged_policy
  fit :: "nat \<Rightarrow> real \<Rightarrow> ndarray \<Rightarrow> py_exception + 'm"
  predict :: "'m \<Rightarrow> ndarray \<Rightarrow> py_exception + int list"
  decision_function :: "'m \<Rightarrow> ndarray \<Rightarrow> py_exception + real list"
  joblib_dump :: "'m \<Rightarrow> py_exception + 'b"
  joblib_load :: "'b \<Rightarrow> py_exception + 'm"

subsection \<open>The model directory\<close>

text \<open>
  The state of the service is the content of the model directory, a map from paths to
  stored blobs. The field \<open>accesses\<close> is a ghost trace: it records each call of
  \<^verbatim>\<open>os.path.exists\<close>, \<^verbatim>\<open>joblib.load\<close> and \<^verbatim>\<open>joblib.dump\<close> in order, so that
  "no access to the store" can be stated. A \<^verbatim>\<open>joblib.dump\<close> that raises is taken to leave
  the directory as it was.
\<close>

datatype fs_op = Exists string | Load string | Dump string

record 'b disk =
  files :: "string \<rightharpoonup> 'b"
  accesses :: "fs_op list"

definition touch :: "fs_op \<Rightarrow> 'b disk \<Rightarrow> 'b disk" where
  "touch op st = st\<lparr>accesses := accesses st @ [op]\<rparr>"

fun is_read :: "fs_op \<Rightarrow> bool" where
  "is_read (Exists p) = True"
| "is_read (Load p) = True"
| "is_read (Dump p) = False"

definition MODEL_DIR :: string where
  "MODEL_DIR = ''models''"

definition os_path_join :: "string \<Rightarrow> string \<Rightarrow> string" where
  \<comment> \<open>\<^verbatim>\<open>posixpath.join\<close> of two components\<close>
  "os_path_join a b =
     (if b \<noteq> [] \<and> hd b = CHR ''/'' then b
      else if a = [] \<or> last a = CHR ''/'' then a @ b
      else a @ ''/'' @ b)"

definition get_model_path :: "string \<Rightarrow> string" where
  "get_model_path ident = os_path_join MODEL_DIR (ident @ ''.joblib'')"

subsection \<open>Loading or training a model (lines 58 to 72)\<close>

definition train_model_sync ::
  "('m, 'b) libs \<Rightarrow> 'b disk \<Rightarrow> string \<Rightarrow> ndarray \<Rightarrow> real \<Rightarrow> (py_exception + 'm) \<times> 'b disk" where
  "train_model_sync L st ident data_np contam =
     (case fit L 42 contam data_np of
        Inl e \<Rightarrow> (Inl e, st)
      | Inr model \<Rightarrow>
          let st1 = touch (Dump (get_model_path ident)) st
          in case joblib_dump L model of
               Inl e \<Rightarrow> (Inl e, st1)
             | Inr blob \<Rightarrow>
                 (Inr model, st1\<lparr>files := (files st1)(get_model_path ident \<mapsto> blob)\<rparr>))"

definition get_or_train_model ::
  "('m, 'b) libs \<Rightarrow> 'b disk \<Rightarrow> string \<Rightarrow> ndarray \<Rightarrow> real \<Rightarrow> (py_exception + 'm) \<times> 'b disk" where
  "get_or_train_model L st ident data_np contam =
     (let model_path = get_model_path ident;
          st1 = touch (Exists model_path) st
      in case files st model_path of
           Some blob \<Rightarrow> (joblib_load L blob, touch (Load model_path) st1)
         | None \<Rightarrow> train_model_sync L st1 ident data_np contam)"

subsection \<open>The three endpoints (lines 74 to 129)\<close>

definition train_model_endpoint ::
  "('m, 'b) libs \<Rightarrow> 'b disk \<Rightarrow> TrainingData \<Rightarrow> (failure + TrainingResult) \<times> 'b disk" where
  "train_model_endpoint L st training_data =
     (if data training_data = []
      then (Inl (HTTPException 400 ''Training data cannot be empty.''), st)
      else case np_array (ragged L) (data training_data) of
        Inl e \<Rightarrow> (Inl (Uncaught e), st)
      | Inr data_np \<Rightarrow>
          if ndim data_np \<noteq> 2
          then (Inl (HTTPException 400
                  ''Training data must be a list of lists (2D array).''), st)
          else case get_or_train_model L st (model_id training_data) data_np
                      (contamination training_data) of
                 (Inl e, st') \<Rightarrow>
                   (Inl (HTTPException 500 (''Failed to train model: '' @ e)), st')
               | (Inr model, st') \<Rightarrow>
                   (Inr (TrainingResult (model_id training_data) ''Success''
                           ''Model trained and saved.''), st'))"

text \<open>
  The two readings of \<^verbatim>\<open>time.perf_counter()\<close> are inputs of the detection endpoint.
\<close>

definition detect_anomalies_endpoint ::
  "('m, 'b) libs \<Rightarrow> real \<Rightarrow> real \<Rightarrow> 'b disk \<Rightarrow> DataInput
     \<Rightarrow> (failure + AnomalyDetectionOutput) \<times> 'b disk" where
  "detect_anomalies_endpoint L start_time end_time st input_data =
     (if data input_data = []
      then (Inl (HTTPException 400 ''Input data cannot be empty.''), st)
      else case np_array (ragged L) (data input_data) of
        Inl e \<Rightarrow> (Inl (Uncaught e), st)
      | Inr data_np \<Rightarrow>
          if ndim data_np \<noteq> 2
          then (Inl (HTTPException 400
                  ''Input data must be a list of lists (2D array).''), st)
          else case get_or_train_model L st (model_id input_data) data_np
                      (contamination input_data) of
                 (Inl e, st') \<Rightarrow>
                   (Inl (HTTPException 500 (''Anomaly detection failed: '' @ e)), st')
               | (Inr model, st') \<Rightarrow>
                   (case predict L model data_np of
                      Inl e \<Rightarrow>
                        (Inl (HTTPException 500 (''Anomaly detection failed: '' @ e)), st')
                    | Inr anomaly_predictions \<Rightarrow>
                        (case decision_function L model data_np of
                           Inl e \<Rightarrow>
                             (Inl (HTTPException 500
                                     (''Anomaly detection failed: '' @ e)), st')
                         | Inr anomaly_scores \<Rightarrow>
                             (case empirical_verifiability_score anomaly_scores of
                                Inl e \<Rightarrow>
                                  (Inl (HTTPException 500
                                          (''Anomaly detection failed: '' @ e)), st')
                              | Inr score \<Rightarrow>
                                  (Inr (AnomalyDetectionOutput (model_id input_data)
                                          anomaly_predictions score
                                          ((end_time - start_time) * 1000)), st')))))"

definition get_model_status_endpoint ::
  "('m, 'b) libs \<Rightarrow> 'b disk \<Rightarrow> string \<Rightarrow> ModelStatus \<times> 'b disk" where
  "get_model_status_endpoint L st ident =
     (let model_path = get_model_path ident;
          st1 = touch (Exists model_path) st
      in case files st model_path of
           Some blob \<Rightarrow>
             (case joblib_load L blob of
                Inr model \<Rightarrow> (ModelStatus ident True None, touch (Load model_path) st1)
              | Inl e \<Rightarrow> (ModelStatus ident False None, touch (Load model_path) st1))
         | None \<Rightarrow> (ModelStatus ident False None, st1))"

subsection \<open>A stand-in for the libraries\<close>

text \<open>
  The theorems below hold for every choice of the libraries. To instantiate them at
  concrete inputs, \<open>toy_libs\<close> is a small estimator whose model is the list of row sums
  of its training data, stored as it is; it stands for no property of scikit-learn.
\<close>

definition toy_libs :: "(real list, real list) libs" where
  "toy_libs =
     \<lparr>ragged = RaisesValueError,
      fit = (\<lambda>seed contam a. Inr (map sum_list (rows a))),
      predict = (\<lambda>m a. Inr (map (\<lambda>row. if np_max m < sum_list row then - 1 else 1) (rows a))),
      decision_function = (\<lambda>m a. Inr (map (\<lambda>row. np_max m - sum_list row) (rows a))),
      joblib_dump = Inr,
      joblib_load = Inr\<rparr>"

definition toy_disk :: "real list disk" where
  "toy_disk = \<lparr>files = [''models/m.joblib'' \<mapsto> [2, 4]], accesses = []\<rparr>"

section \<open>Properties of the verifiability score\<close>

lemma fold_min_Min: "fold min xs (x::real) = Min (insert x (set xs))"
proof (induction xs arbitrary: x)
  case Nil
  show ?case by simp
next
  case (Cons y ys)
  have "Min (insert (min y x) (set ys)) = Min (insert x (insert y (set ys)))"
    by (cases "set ys = {}") (simp_all add: Min_insert2 min.assoc min.commute min.left_commute)
  with Cons show ?case by simp
qed

lemma fold_max_Max: "fold max xs (x::real) = Max (insert x (set xs))"
proof (induction xs arbitrary: x)
  case Nil
  show ?case by simp
next
  case (Cons y ys)
  have "Max (insert (max y x) (set ys)) = Max (insert x (insert y (set ys)))"
    by (cases "set ys = {}") (simp_all add: max.assoc max.commute max.left_commute)
  with Cons show ?case by simp
qed

lemma np_min_Min: "xs \<noteq> [] \<Longrightarrow> np_min xs = Min (set xs)"
  by (cases xs) (simp_all add: np_min_def fold_min_Min)

lemma np_max_Max: "xs \<noteq> [] \<Longrightarrow> np_max xs = Max (set xs)"
  by (cases xs) (simp_all add: np_max_def fold_max_Max)

lemma np_min_le: "s \<in> set xs \<Longrightarrow> np_min xs \<le> s"
  by (cases "xs = []") (simp_all add: np_min_Min)

lemma np_max_ge: "s \<in> set xs \<Longrightarrow> s \<le> np_max xs"
  by (cases "xs = []") (simp_all add: np_max_Max)

lemma np_min_const: "xs \<noteq> [] \<Longrightarrow> \<forall>s\<in>set xs. s = c \<Longrightarrow> np_min xs = c"
proof -
  assume ne: "xs \<noteq> []" and all: "\<forall>s\<in>set xs. s = c"
  then have "set xs = {c}" by (cases xs) auto
  with ne show ?thesis by (simp add: np_min_Min)
qed

lemma np_max_const: "xs \<noteq> [] \<Longrightarrow> \<forall>s\<in>set xs. s = c \<Longrightarrow> np_max xs = c"
proof -
  assume ne: "xs \<noteq> []" and all: "\<forall>s\<in>set xs. s = c"
  then have "set xs = {c}" by (cases xs) auto
  with ne show ?thesis by (simp add: np_max_Max)
qed

lemma sum_list_bounds:
  fixes ys :: "real list"
  assumes "\<forall>y\<in>set ys. 0 \<le> y \<and> y \<le> 1"
  shows "0 \<le> sum_list ys \<and> sum_list ys \<le> real (length ys)"
  using assms by (induction ys) auto

lemma np_mean_unit_interval:
  assumes "ys \<noteq> []" and "\<forall>y\<in>set ys. 0 \<le> y \<and> y \<le> 1"
  shows "0 \<le> np_mean ys \<and> np_mean ys \<le> 1"
proof -
  have len: "0 < real (length ys)" using assms(1) by simp
  from sum_list_bounds [OF assms(2)]
  have "0 \<le> sum_list ys" and "sum_list ys \<le> real (length ys)" by simp_all
  with len show ?thesis by (simp add: np_mean_def)
qed

lemma normalized_unit_interval:
  assumes "s \<in> set xs" and "np_min xs < np_max xs"
  shows "0 \<le> (s - np_min xs) / (np_max xs - np_min xs)
       \<and> (s - np_min xs) / (np_max xs - np_min xs) \<le> 1"
proof -
  have lo: "np_min xs \<le> s" and hi: "s \<le> np_max xs"
    using assms(1) by (simp_all add: np_min_le np_max_ge)
  from assms(2) have pos: "0 < np_max xs - np_min xs" by simp
  from lo pos have "0 \<le> (s - np_min xs) / (np_max xs - np_min xs)" by simp
  moreover from hi pos have "(s - np_min xs) / (np_max xs - np_min xs) \<le> 1" by simp
  ultimately show ?thesis by simp
qed

text \<open>
  Claim C2. A batch of raw scores whose maximum equals its minimum is scored exactly 1:
  this covers the batch of one sample and the batch whose scores are all the same value.
\<close>

theorem degenerate_batch_scores_one:
  assumes "anomaly_scores \<noteq> []"
  shows "(np_max anomaly_scores = np_min anomaly_scores
            \<longrightarrow> empirical_verifiability_score anomaly_scores = Inr 1)
       \<and> ((\<forall>s\<in>set anomaly_scores. s = c)
            \<longrightarrow> empirical_verifiability_score anomaly_scores = Inr 1)
       \<and> empirical_verifiability_score [s0] = Inr 1"
proof (intro conjI impI)
  assume "np_max anomaly_scores = np_min anomaly_scores"
  with assms show "empirical_verifiability_score anomaly_scores = Inr 1"
    by (simp add: empirical_verifiability_score_def)
next
  assume all: "\<forall>s\<in>set anomaly_scores. s = c"
  have "np_max anomaly_scores = c" and "np_min anomaly_scores = c"
    using assms all by (simp_all add: np_max_const np_min_const)
  with assms show "empirical_verifiability_score anomaly_scores = Inr 1"
    by (simp add: empirical_verifiability_score_def)
next
  show "empirical_verifiability_score [s0] = Inr 1"
    by (simp add: empirical_verifiability_score_def np_min_def np_max_def)
qed

theorem degenerate_batch_scores_one_witness:
  "[0.25, 0.25, 0.25] \<noteq> ([]::real list)
   \<and> np_max [0.25, 0.25, 0.25] = np_min [0.25, 0.25, 0.25]
   \<and> empirical_verifiability_score [0.25, 0.25, 0.25] = Inr 1
   \<and> empirical_verifiability_score [-0.5] = Inr 1"
  using degenerate_batch_scores_one [of "[0.25, 0.25, 0.25]" "0.25" "-0.5"]
  by (simp add: np_min_def np_max_def)

text \<open>
  Claim C3. A batch whose maximum is strictly greater than its minimum is scored with the
  arithmetic mean of its min-max-normalised scores, and that mean lies between 0 and 1.
\<close>

theorem nondegenerate_batch_score_in_unit_interval:
  assumes "np_min anomaly_scores < np_max anomaly_scores"
  shows "\<exists>v. empirical_verifiability_score anomaly_scores = Inr v
           \<and> v = np_mean (map (\<lambda>s. (s - np_min anomaly_scores)
                                   / (np_max anomaly_scores - np_min anomaly_scores))
                              anomaly_scores)
           \<and> 0 \<le> v \<and> v \<le> 1"
proof -
  let ?norm = "map (\<lambda>s. (s - np_min anomaly_scores)
                        / (np_max anomaly_scores - np_min anomaly_scores)) anomaly_scores"
  have ne: "anomaly_scores \<noteq> []"
    using assms by (auto simp: np_min_def np_max_def)
  have val: "empirical_verifiability_score anomaly_scores = Inr (np_mean ?norm)"
    using assms ne by (simp add: empirical_verifiability_score_def Let_def)
  have "\<forall>y\<in>set ?norm. 0 \<le> y \<and> y \<le> 1"
    using normalized_unit_interval [OF _ assms] by auto
  moreover have "?norm \<noteq> []" using ne by simp
  ultimately have "0 \<le> np_mean ?norm \<and> np_mean ?norm \<le> 1"
    by (rule np_mean_unit_interval [rotated])
  with val show ?thesis by blast
qed

theorem nondegenerate_batch_score_in_unit_interval_witness:
  "np_min [-0.5, 0.25, 0.5] < np_max [-0.5, 0.25, 0.5]
   \<and> empirical_verifiability_score [-0.5, 0.25, 0.5] = Inr (7 / 12)
   \<and> (0::real) \<le> 7 / 12 \<and> (7::real) / 12 \<le> 1"
proof -
  have h: "np_min [-0.5, 0.25, 0.5] < np_max [-0.5, 0.25, 0.5]"
    by (simp add: np_min_def np_max_def)
  from nondegenerate_batch_score_in_unit_interval [OF h]
  obtain v where "empirical_verifiability_score [-0.5, 0.25, 0.5] = Inr v"
    and "0 \<le> v" and "v \<le> 1" by blast
  moreover have "empirical_verifiability_score [-0.5, 0.25, 0.5] = Inr (7 / 12)"
    by (simp add: empirical_verifiability_score_def np_min_def np_max_def np_mean_def)
  ultimately show ?thesis using h by simp
qed

section \<open>Properties of the model store and the endpoints\<close>

subsection \<open>Auxiliary facts\<close>

lemma get_or_train_model_cached:
  assumes "files st (get_model_path ident) = Some blob"
  shows "get_or_train_model L st ident data_np contam =
           (joblib_load L blob,
            st\<lparr>accesses := accesses st @ [Exists (get_model_path ident), Load (get_model_path ident)]\<rparr>)"
  using assms by (simp add: get_or_train_model_def touch_def Let_def)

lemma toy_disk_record: "files toy_disk (get_model_path ''m'') = Some [2, 4]"
  by (simp add: toy_disk_def get_model_path_def os_path_join_def MODEL_DIR_def)

lemma np_array_rectangular:
  "xs \<noteq> [] \<Longrightarrow> rectangular xs \<Longrightarrow> np_array policy xs = Inr \<lparr>ndim = 2, rows = xs\<rparr>"
  by (simp add: np_array_def)

lemma get_model_status_endpoint_absent:
  assumes "files st (get_model_path ident) = None"
  shows "get_model_status_endpoint L st ident =
           (ModelStatus ident False None,
            st\<lparr>accesses := accesses st @ [Exists (get_model_path ident)]\<rparr>)"
  using assms by (simp add: get_model_status_endpoint_def touch_def Let_def)

lemma get_model_status_endpoint_present:
  assumes "files st (get_model_path ident) = Some blob"
  shows "get_model_status_endpoint L st ident =
           (ModelStatus ident (case joblib_load L blob of Inl e \<Rightarrow> False | Inr m \<Rightarrow> True) None,
            st\<lparr>accesses := accesses st
                    @ [Exists (get_model_path ident), Load (get_model_path ident)]\<rparr>)"
  using assms
  by (simp add: get_model_status_endpoint_def touch_def Let_def split: sum.splits)

lemma train_model_endpoint_cached:
  assumes "files st (get_model_path (model_id req)) = Some blob"
  shows "train_model_endpoint L st req =
     (if data req = [] then (Inl (HTTPException 400 ''Training data cannot be empty.''), st)
      else case np_array (ragged L) (data req) of
        Inl e \<Rightarrow> (Inl (Uncaught e), st)
      | Inr data_np \<Rightarrow>
          if ndim data_np \<noteq> 2
          then (Inl (HTTPException 400
                  ''Training data must be a list of lists (2D array).''), st)
          else case joblib_load L blob of
                 Inl e \<Rightarrow>
                   (Inl (HTTPException 500 (''Failed to train model: '' @ e)),
                    st\<lparr>accesses := accesses st @ [Exists (get_model_path (model_id req)),
                                                   Load (get_model_path (model_id req))]\<rparr>)
               | Inr model \<Rightarrow>
                   (Inr (TrainingResult (model_id req) ''Success''
                           ''Model trained and saved.''),
                    st\<lparr>accesses := accesses st @ [Exists (get_model_path (model_id req)),
                                                   Load (get_model_path (model_id req))]\<rparr>))"
  by (simp add: train_model_endpoint_def get_or_train_model_cached [OF assms]
        split: sum.splits)

subsection \<open>A stored record wins over the arguments of the call\<close>

text \<open>
  Claim C1. When a record is stored for an identifier, \<open>get_or_train_model\<close> returns
  what loading that record yields, whatever array and contamination are passed: a first
  call and a second call made after it, with other arguments, give the same result and
  leave the stored files as they were, so the returned models predict the same labels on
  every probe set.
\<close>

theorem cache_wins_idempotence:
  assumes "files st (get_model_path ident) = Some blob"
    and "get_or_train_model L st ident d1 c1 = (r1, st1)"
    and "get_or_train_model L st1 ident d2 c2 = (r2, st2)"
  shows "r1 = joblib_load L blob \<and> r2 = r1
       \<and> files st1 = files st \<and> files st2 = files st
       \<and> (\<forall>m1 m2. r1 = Inr m1 \<and> r2 = Inr m2 \<longrightarrow> m1 = m2 \<and> predict L m1 probe = predict L m2 probe)"
proof -
  from assms(2) have one: "r1 = joblib_load L blob" "files st1 = files st"
    by (auto simp add: get_or_train_model_cached [OF assms(1)])
  then have "files st1 (get_model_path ident) = Some blob" using assms(1) by simp
  from assms(3) have two: "r2 = joblib_load L blob" "files st2 = files st1"
    by (auto simp add: get_or_train_model_cached [OF \<open>files st1 (get_model_path ident) = Some blob\<close>])
  from one two show ?thesis by auto
qed

theorem cache_wins_idempotence_witness:
  "files toy_disk (get_model_path ''m'') = Some [2, 4]
   \<and> fst (get_or_train_model toy_libs toy_disk ''m'' \<lparr>ndim = 2, rows = [[1, 1], [10, 10]]\<rparr> 0.25)
       = Inr [2, 4]
   \<and> fst (get_or_train_model toy_libs
            (snd (get_or_train_model toy_libs toy_disk ''m''
                    \<lparr>ndim = 2, rows = [[1, 1], [10, 10]]\<rparr> 0.25))
            ''m'' \<lparr>ndim = 2, rows = [[7, 7, 7]]\<rparr> 0.01)
       = Inr [2, 4]
   \<and> predict toy_libs [2, 4] \<lparr>ndim = 2, rows = [[1, 1], [3, 3]]\<rparr> = Inr [1, - 1]"
proof -
  let ?c1 = "get_or_train_model toy_libs toy_disk ''m''
               \<lparr>ndim = 2, rows = [[1, 1], [10, 10]]\<rparr> 0.25"
  let ?c2 = "get_or_train_model toy_libs (snd ?c1) ''m'' \<lparr>ndim = 2, rows = [[7, 7, 7]]\<rparr> 0.01"
  have h2: "?c1 = (fst ?c1, snd ?c1)" by simp
  have h3: "?c2 = (fst ?c2, snd ?c2)" by simp
  from cache_wins_idempotence [OF toy_disk_record h2 h3]
  have "fst ?c1 = joblib_load toy_libs [2, 4]" and "fst ?c2 = fst ?c1" by blast+
  moreover have "joblib_load toy_libs [2, 4] = Inr [2, 4]" by (simp add: toy_libs_def)
  moreover have "predict toy_libs [2, 4] \<lparr>ndim = 2, rows = [[1, 1], [3, 3]]\<rparr> = Inr [1, - 1]"
    by (simp add: toy_libs_def np_max_def)
  ultimately show ?thesis using toy_disk_record by simp
qed

subsection \<open>Detection on an empty dataset\<close>

text \<open>
  Claim C5. A detection request whose dataset is empty is answered with the status 400
  and the detail "Input data cannot be empty."; the state is returned as it was, trace of
  accesses included, so the model directory is neither queried, read nor written.
\<close>

theorem detect_empty_rejected:
  assumes "data input_data = []"
  shows "detect_anomalies_endpoint L start_time end_time st input_data =
           (Inl (HTTPException 400 ''Input data cannot be empty.''), st)"
  using assms by (simp add: detect_anomalies_endpoint_def)

theorem detect_empty_rejected_witness:
  "data \<lparr>data = [], model_id = ''m'', contamination = 0.01\<rparr> = []
   \<and> detect_anomalies_endpoint toy_libs 0 1 toy_disk
        \<lparr>data = [], model_id = ''m'', contamination = 0.01\<rparr>
       = (Inl (HTTPException 400 ''Input data cannot be empty.''), toy_disk)"
  using detect_empty_rejected
          [of "\<lparr>data = [], model_id = ''m'', contamination = 0.01\<rparr>" toy_libs 0 1 toy_disk]
  by simp

subsection \<open>The status query\<close>

text \<open>
  Claim C9. The status query answers \<open>is_trained = True\<close> exactly when a file is stored
  for the identifier and it loads (a stored file that fails to load is reported as not
  trained). It leaves the stored files as they were, its accesses are existence checks and
  loads only, and its answer does not depend on the training and saving functions.
\<close>

theorem model_status_read_only:
  "fst (get_model_status_endpoint L st ident) =
     ModelStatus ident
       (\<exists>blob model. files st (get_model_path ident) = Some blob
                     \<and> joblib_load L blob = Inr model) None
   \<and> files (snd (get_model_status_endpoint L st ident)) = files st
   \<and> (\<exists>ops. accesses (snd (get_model_status_endpoint L st ident)) = accesses st @ ops
            \<and> list_all is_read ops)
   \<and> get_model_status_endpoint (L\<lparr>fit := f, joblib_dump := d\<rparr>) st ident
       = get_model_status_endpoint L st ident"
proof (cases "files st (get_model_path ident)")
  case None
  have "list_all is_read [Exists (get_model_path ident)]" by simp
  then have "\<exists>ops. accesses st @ [Exists (get_model_path ident)] = accesses st @ ops
                \<and> list_all is_read ops" by blast
  with None show ?thesis
    by (simp add: get_model_status_endpoint_absent)
next
  case (Some blob)
  have "list_all is_read [Exists (get_model_path ident), Load (get_model_path ident)]"
    by simp
  then have ops: "\<exists>ops. accesses st @ [Exists (get_model_path ident), Load (get_model_path ident)]
                      = accesses st @ ops \<and> list_all is_read ops" by blast
  have "(case joblib_load L blob of Inl e \<Rightarrow> False | Inr m \<Rightarrow> True)
          = (\<exists>model. joblib_load L blob = Inr model)"
    by (cases "joblib_load L blob") simp_all
  with Some ops show ?thesis
    by (simp add: get_model_status_endpoint_present)
qed

theorem model_status_read_only_witness:
  "get_model_status_endpoint toy_libs toy_disk ''m'' =
     (ModelStatus ''m'' True None,
      toy_disk\<lparr>accesses := [Exists ''models/m.joblib'', Load ''models/m.joblib'']\<rparr>)
   \<and> get_model_status_endpoint toy_libs toy_disk ''q'' =
     (ModelStatus ''q'' False None, toy_disk\<lparr>accesses := [Exists ''models/q.joblib'']\<rparr>)
   \<and> files (snd (get_model_status_endpoint toy_libs toy_disk ''m'')) = files toy_disk"
proof -
  from model_status_read_only [of toy_libs toy_disk "''m''"]
  have "files (snd (get_model_status_endpoint toy_libs toy_disk ''m'')) = files toy_disk"
    by blast
  moreover have "get_model_status_endpoint toy_libs toy_disk ''m'' =
     (ModelStatus ''m'' True None,
      toy_disk\<lparr>accesses := [Exists ''models/m.joblib'', Load ''models/m.joblib'']\<rparr>)"
    by (simp add: get_model_status_endpoint_def touch_def toy_libs_def toy_disk_def
          get_model_path_def os_path_join_def MODEL_DIR_def Let_def)
  moreover have "get_model_status_endpoint toy_libs toy_disk ''q'' =
     (ModelStatus ''q'' False None, toy_disk\<lparr>accesses := [Exists ''models/q.joblib'']\<rparr>)"
    by (simp add: get_model_status_endpoint_def touch_def toy_libs_def toy_disk_def
          get_model_path_def os_path_join_def MODEL_DIR_def Let_def)
  ultimately show ?thesis by simp
qed

subsection \<open>Training when a record is already stored\<close>

text \<open>
  The training endpoint validates the dataset before it looks the identifier up: with a
  record stored for \<open>m\<close>, a request with an empty dataset is answered with the status
  400, not with success.
\<close>

theorem train_existing_record_counterexample:
  "files toy_disk (get_model_path ''m'') = Some [2, 4]
   \<and> train_model_endpoint toy_libs toy_disk \<lparr>data = [], model_id = ''m'', contamination = 0.01\<rparr>
       = (Inl (HTTPException 400 ''Training data cannot be empty.''), toy_disk)
   \<and> fst (train_model_endpoint toy_libs toy_disk
            \<lparr>data = [], model_id = ''m'', contamination = 0.01\<rparr>)
       \<noteq> Inr (TrainingResult ''m'' ''Success'' ''Model trained and saved.'')"
  by (simp add: toy_disk_record train_model_endpoint_def)

text \<open>
  Claim C10, amended. When a record is stored for the identifier of a training request,
  the stored files are left as they were and the answer does not depend on the training
  and saving functions; when moreover the dataset passes the validation of the endpoint
  (non-empty, all rows of one length) and the stored record loads, the answer is success
  with the message "Model trained and saved.", whatever the dataset and the contamination.
\<close>

theorem train_existing_record_keeps_store:
  assumes "files st (get_model_path (model_id req)) = Some blob"
  shows "files (snd (train_model_endpoint L st req)) = files st
       \<and> train_model_endpoint (L\<lparr>fit := f, joblib_dump := d\<rparr>) st req
           = train_model_endpoint L st req
       \<and> (data req \<noteq> [] \<and> rectangular (data req) \<and> joblib_load L blob = Inr model
            \<longrightarrow> train_model_endpoint L st req =
                  (Inr (TrainingResult (model_id req) ''Success'' ''Model trained and saved.''),
                   st\<lparr>accesses := accesses st @ [Exists (get_model_path (model_id req)),
                                                  Load (get_model_path (model_id req))]\<rparr>))"
proof (intro conjI impI)
  show "files (snd (train_model_endpoint L st req)) = files st"
    by (simp add: train_model_endpoint_cached [OF assms] split: sum.splits)
next
  show "train_model_endpoint (L\<lparr>fit := f, joblib_dump := d\<rparr>) st req
          = train_model_endpoint L st req"
    by (simp add: train_model_endpoint_cached [OF assms] split: sum.splits)
next
  assume ok: "data req \<noteq> [] \<and> rectangular (data req) \<and> joblib_load L blob = Inr model"
  then have "np_array (ragged L) (data req) = Inr \<lparr>ndim = 2, rows = data req\<rparr>"
    by (simp add: np_array_rectangular)
  with ok show "train_model_endpoint L st req =
                  (Inr (TrainingResult (model_id req) ''Success'' ''Model trained and saved.''),
                   st\<lparr>accesses := accesses st @ [Exists (get_model_path (model_id req)),
                                                  Load (get_model_path (model_id req))]\<rparr>)"
    by (simp add: train_model_endpoint_cached [OF assms])
qed

theorem train_existing_record_keeps_store_witness:
  "files toy_disk (get_model_path ''m'') = Some [2, 4]
   \<and> [[100, 200], [1, 2]] \<noteq> ([]::real list list)
   \<and> rectangular [[100, 200], [1, 2]]
   \<and> joblib_load toy_libs [2, 4] = Inr [2, 4]
   \<and> train_model_endpoint toy_libs toy_disk
        \<lparr>data = [[100, 200], [1, 2]], model_id = ''m'', contamination = 0.5\<rparr>
       = (Inr (TrainingResult ''m'' ''Success'' ''Model trained and saved.''),
          toy_disk\<lparr>accesses := [Exists ''models/m.joblib'', Load ''models/m.joblib'']\<rparr>)"
proof -
  have rec: "files toy_disk
               (get_model_path (model_id \<lparr>data = [[100, 200], [1, 2]], model_id = ''m'',
                                          contamination = 0.5\<rparr>)) = Some [2, 4]"
    by (simp add: toy_disk_record)
  have ok: "[[100, 200], [1, 2]] \<noteq> ([]::real list list)
            \<and> rectangular [[100, 200], [1, 2]]
            \<and> joblib_load toy_libs [2, 4] = Inr [2, 4]"
    by (simp add: rectangular_def toy_libs_def)
  have path: "get_model_path ''m'' = ''models/m.joblib''"
    by (simp add: get_model_path_def os_path_join_def MODEL_DIR_def)
  have "accesses toy_disk = []" by (simp add: toy_disk_def)
  with train_existing_record_keeps_store [where L = toy_libs and model = "[2, 4]", OF rec]
    ok path toy_disk_record
  show ?thesis by simp
qed

subsection \<open>Datasets with rows of unequal length\<close>

text \<open>
  A non-empty dataset whose rows differ in length never reaches the model lookup: the
  state is returned as it was. What the client receives depends on numpy. Where numpy
  builds a one-dimensional array, the check of \<open>ndim\<close> answers with the status 400;
  where numpy raises ValueError, the exception leaves the handler, since the array is
  built before the \<^verbatim>\<open>try\<close> block.
\<close>

lemma ragged_training_rejected:
  assumes "data req \<noteq> []" and "\<not> rectangular (data req)"
  shows "train_model_endpoint L st req =
           (case ragged L of
              ObjectArray \<Rightarrow>
                (Inl (HTTPException 400 ''Training data must be a list of lists (2D array).''), st)
            | RaisesValueError \<Rightarrow>
                (Inl (Uncaught ''setting an array element with a sequence. The requested array has an inhomogeneous shape after 1 dimensions.''), st))"
  using assms
  by (simp add: train_model_endpoint_def np_array_def split: ragged_policy.splits)

lemma ragged_detection_rejected:
  assumes "data req \<noteq> []" and "\<not> rectangular (data req)"
  shows "detect_anomalies_endpoint L t0 t1 st req =
           (case ragged L of
              ObjectArray \<Rightarrow>
                (Inl (HTTPException 400 ''Input data must be a list of lists (2D array).''), st)
            | RaisesValueError \<Rightarrow>
                (Inl (Uncaught ''setting an array element with a sequence. The requested array has an inhomogeneous shape after 1 dimensions.''), st))"
  using assms
  by (simp add: detect_anomalies_endpoint_def np_array_def split: ragged_policy.splits)

text \<open>
  Claim C8. With a numpy that raises on rows of unequal length, the dataset
  \<open>[[1], [1, 2]]\<close> makes both the detection and the training endpoint end in an uncaught
  ValueError (answered with the status 500) instead of the 400 of the \<open>ndim\<close> check.
\<close>

theorem ragged_request_uncaught_value_error:
  "detect_anomalies_endpoint (L\<lparr>ragged := RaisesValueError\<rparr>) t0 t1 st
      \<lparr>data = [[1], [1, 2]], model_id = ident, contamination = contam\<rparr>
     = (Inl (Uncaught ''setting an array element with a sequence. The requested array has an inhomogeneous shape after 1 dimensions.''), st)
   \<and> train_model_endpoint (L\<lparr>ragged := RaisesValueError\<rparr>) st
      \<lparr>data = [[1], [1, 2]], model_id = ident, contamination = contam\<rparr>
     = (Inl (Uncaught ''setting an array element with a sequence. The requested array has an inhomogeneous shape after 1 dimensions.''), st)"
  by (simp add: detect_anomalies_endpoint_def train_model_endpoint_def np_array_def
        rectangular_def)

end
